theory Spec2Isabelle
  imports Complex_Main "HOL-Library.Word" "HOL-Library.Multiset"
begin

section \<open>Go library functions used by baseline.go\<close>

text \<open>
  A Go string that the program handles is valid UTF-8 (typed into the input field rune by
  rune, or decoded from JSON), so it is modelled as the list of its runes, a rune being
  its code point. \<open>runes\<close> turns a literal of the source into such a list.
\<close>

type_synonym rune = nat

type_synonym gostring = "rune list"

definition runes :: "string \<Rightarrow> gostring" where
  "runes s = map of_char s"

text \<open>
  \<open>unicode.ToLower\<close>: the letters A..Z are mapped by arithmetic, every rune above
  ASCII by the case table of package \<open>unicode\<close> (\<open>unicode.To(unicode.LowerCase, r)\<close>).
  The table belongs to the Go library, not to the repository; it is the parameter
  \<open>tbl\<close>. \<open>strings.ToLower\<close> maps every rune of the string.
\<close>

definition toLowerRune :: "(rune \<Rightarrow> rune) \<Rightarrow> rune \<Rightarrow> rune" where
  "toLowerRune tbl r =
     (if r \<le> 0x7F then
        (if of_char (CHR ''A'') \<le> r \<and> r \<le> of_char (CHR ''Z'') then r + 32 else r)
      else tbl r)"

definition ToLower :: "(rune \<Rightarrow> rune) \<Rightarrow> gostring \<Rightarrow> gostring" where
  "ToLower tbl s = map (toLowerRune tbl) s"

text \<open>
  \<open>unicode.IsSpace\<close>: the runes with Unicode's White_Space property, as the table
  \<open>unicode.White_Space\<close> lists them. \<open>strings.TrimSpace\<close> and \<open>strings.Fields\<close> use
  it.
\<close>

definition isSpace :: "rune \<Rightarrow> bool" where
  "isSpace r =
     ((0x09 \<le> r \<and> r \<le> 0x0D) \<or> r = 0x20 \<or> r = 0x85 \<or> r = 0xA0 \<or> r = 0x1680 \<or>
      (0x2000 \<le> r \<and> r \<le> 0x200A) \<or> r = 0x2028 \<or> r = 0x2029 \<or> r = 0x202F \<or>
      r = 0x205F \<or> r = 0x3000)"

definition TrimSpace :: "gostring \<Rightarrow> gostring" where
  "TrimSpace s = rev (dropWhile isSpace (rev (dropWhile isSpace s)))"

text \<open>\<open>strings.Fields\<close>: the maximal runs of non-space runes, in order.
  The second argument is the field being read.\<close>

fun fieldsFrom :: "gostring \<Rightarrow> gostring \<Rightarrow> gostring list" where
  "fieldsFrom [] cur = (if cur = [] then [] else [cur])"
| "fieldsFrom (c # cs) cur =
     (if isSpace c then (if cur = [] then fieldsFrom cs [] else cur # fieldsFrom cs [])
      else fieldsFrom cs (cur @ [c]))"

definition Fields :: "gostring \<Rightarrow> gostring list" where
  "Fields s = fieldsFrom s []"

text \<open>
  Unicode gives no white-space character a case mapping and maps no letter to white
  space, so lower-casing never changes which runes of a string are white space. This is
  what the theorems below ask of a lower-case table, in full or in the one direction they
  need.
\<close>

definition spaceStable :: "(rune \<Rightarrow> rune) \<Rightarrow> bool" where
  "spaceStable tbl = (\<forall>r. isSpace (toLowerRune tbl r) = isSpace r)"

text \<open>\<open>strings.Join\<close>.\<close>

fun Join :: "gostring list \<Rightarrow> gostring \<Rightarrow> gostring" where
  "Join [] sep = []"
| "Join [x] sep = x"
| "Join (x # y # zs) sep = x @ sep @ Join (y # zs) sep"

text \<open>
  \<open>strconv.Atoi\<close> on a 64-bit platform: an optional sign, then one or more decimal
  digits; \<open>None\<close> stands for the error result (syntax, or a value outside int64).
\<close>

definition digitVal :: "rune \<Rightarrow> int option" where
  "digitVal r =
     (if of_char (CHR ''0'') \<le> r \<and> r \<le> of_char (CHR ''9'')
      then Some (int r - of_char (CHR ''0'')) else None)"

fun digitsVal :: "int \<Rightarrow> gostring \<Rightarrow> int option" where
  "digitsVal acc [] = Some acc"
| "digitsVal acc (c # cs) =
     (case digitVal c of None \<Rightarrow> None | Some d \<Rightarrow> digitsVal (10 * acc + d) cs)"

definition Atoi :: "gostring \<Rightarrow> int option" where
  "Atoi s =
     (let neg = (s \<noteq> [] \<and> hd s = of_char (CHR ''-''));
          ds = (if s \<noteq> [] \<and> (hd s = of_char (CHR ''-'') \<or> hd s = of_char (CHR ''+''))
                then tl s else s)
      in if ds = [] then None
         else case digitsVal 0 ds of
                None \<Rightarrow> None
              | Some n \<Rightarrow>
                  let v = (if neg then - n else n)
                  in if v < - (2 ^ 63) \<or> 2 ^ 63 - 1 < v then None else Some v)"

text \<open>The verb \<open>%d\<close> of \<open>fmt.Sprintf\<close>.\<close>

fun natDigits :: "nat \<Rightarrow> gostring" where
  "natDigits n =
     (if n < 10 then [of_char (CHR ''0'') + n]
      else natDigits (n div 10) @ [of_char (CHR ''0'') + n mod 10])"

definition Itoa :: "int \<Rightarrow> gostring" where
  "Itoa i =
     (if i < 0 then of_char (CHR ''-'') # natDigits (nat (- i)) else natDigits (nat i))"

section \<open>Data structures\<close>

record Theme =
  Main :: nat
  Dim :: nat
  Bright :: nat

definition themes :: "(gostring \<times> Theme) list" where
  "themes =
     [(runes ''amber'', \<lparr>Main = 0xFFBF00, Dim = 0xCC9900, Bright = 0xFFDF00\<rparr>),
      (runes ''green'', \<lparr>Main = 0x00FF00, Dim = 0x009900, Bright = 0xCCFFCC\<rparr>),
      (runes ''blue'', \<lparr>Main = 0x00BFFF, Dim = 0x0099CC, Bright = 0x99CCFF\<rparr>)]"

record TodoItem =
  Text :: gostring
  Done :: bool
  Priority :: gostring

type_synonym time = nat

record Notification =
  Message :: gostring
  Type :: gostring
  Time :: time

record SystemHistory =
  CPU :: "real list"
  Memory :: "real list"
  Timestamps :: "gostring list"
  NetworkIn :: "64 word list"
  NetworkOut :: "64 word list"

record WeatherInfo =
  Location :: gostring
  TempC :: real
  Condition :: gostring
  Humidity :: int
  WindKph :: real
  Error :: gostring
  LastUpdated :: time

text \<open>The goroutines that the code starts with \<open>go\<close>.\<close>

datatype task = UpdateFooter | UpdateTodos | ApplyTheme | FetchWeather

text \<open>
  The state of \<open>Baseline\<close>. \<open>mu\<close> is the mutex \<open>b.mu\<close>: \<open>True\<close> while it is
  write-locked. Of the terminal application the model keeps what the modelled functions
  write: whether \<open>b.app.Stop()\<close> was called, the text of the command input field, whether
  the input field has the focus, the goroutines started so far, and the rows last written
  to the todo panel (index, priority mark, done, escaped text). The text of the other
  panels is not part of the state, and neither are the fields that only the display code
  reads (\<open>configDir\<close>, \<open>cpuCoreCount\<close>, \<open>lastNetIO\<close>, \<open>lastNetTime\<close>).
\<close>

type_synonym todoRow = "nat \<times> rune \<times> bool \<times> gostring"

record Baseline =
  mu :: bool
  todoItems :: "TodoItem list"
  notifications :: "Notification list"
  systemHistory :: SystemHistory
  weatherInfo :: WeatherInfo
  currentFocus :: gostring
  commandHistory :: "gostring list"
  theme :: Theme
  weatherAPIKey :: gostring
  weatherLocation :: gostring
  stopped :: bool
  cmdInput :: gostring
  cmdInputFocused :: bool
  spawned :: "task list"
  todoPanel :: "todoRow list"

text \<open>
  What a call reads from outside the program: the wall clock (\<open>time.Now()\<close>), the
  result of marshalling and writing a file, the order in which \<open>range themes\<close> yields
  the keys of the map, and the lower-case table of package \<open>unicode\<close> for the runes
  above ASCII.
\<close>

datatype io_result = IoOk | MarshalFailed gostring | WriteFailed gostring

record world =
  clock :: time
  fileWrite :: io_result
  rangeThemes :: "gostring list"
  caseTable :: "rune \<Rightarrow> rune"

section \<open>The mutex\<close>

text \<open>
  A call ends in one of three ways: it returns, it blocks in \<open>Lock\<close> on a mutex that
  is held, or it panics. \<open>sync.RWMutex\<close> is not reentrant: a goroutine that calls
  \<open>Lock\<close> while it holds the mutex itself blocks forever, so nested acquisition is a
  deadlock. \<open>Blocks\<close> and \<open>Panics\<close> carry the state at that moment.
\<close>

datatype 'a outcome = Returns 'a | Blocks Baseline | Panics Baseline

fun andThen :: "'a outcome \<Rightarrow> ('a \<Rightarrow> 'b outcome) \<Rightarrow> 'b outcome" where
  "andThen (Returns x) f = f x"
| "andThen (Blocks b) f = Blocks b"
| "andThen (Panics b) f = Panics b"

fun final :: "Baseline outcome \<Rightarrow> Baseline" where
  "final (Returns b) = b"
| "final (Blocks b) = b"
| "final (Panics b) = b"

definition Lock :: "Baseline \<Rightarrow> Baseline outcome" where
  "Lock b = (if mu b then Blocks b else Returns (b\<lparr>mu := True\<rparr>))"

definition Unlock :: "Baseline \<Rightarrow> Baseline" where
  "Unlock b = b\<lparr>mu := False\<rparr>"

definition RLock :: "Baseline \<Rightarrow> Baseline outcome" where
  "RLock b = (if mu b then Blocks b else Returns b)"

section \<open>Notifications\<close>

text \<open>\<open>addNotification\<close> (lines 989-1005).\<close>

definition addNotification :: "world \<Rightarrow> gostring \<Rightarrow> gostring \<Rightarrow> Baseline \<Rightarrow> Baseline outcome" where
  "addNotification w message msgType b =
     andThen (Lock b) (\<lambda>b.
       let ns = notifications b @ [\<lparr>Message = message, Type = msgType, Time = clock w\<rparr>];
           ns = (if length ns > 5 then drop (length ns - 5) ns else ns)
       in Returns (Unlock (b\<lparr>notifications := ns, spawned := spawned b @ [UpdateFooter]\<rparr>)))"


section \<open>Persistence\<close>

text \<open>\<open>saveTodos\<close> (lines 230-243): a failure is reported through \<open>addNotification\<close>.\<close>

definition saveTodos :: "world \<Rightarrow> Baseline \<Rightarrow> Baseline outcome" where
  "saveTodos w b =
     (case fileWrite w of
        IoOk \<Rightarrow> Returns b
      | MarshalFailed e \<Rightarrow> addNotification w (runes ''Error marshalling todos: '' @ e) (runes ''error'') b
      | WriteFailed e \<Rightarrow> addNotification w (runes ''Error saving todos: '' @ e) (runes ''error'') b)"

definition historyLimit :: nat where
  "historyLimit = 60"

text \<open>
  The slice expression \<open>xs[len(xs)-historyLimit:]\<close>: Go panics when the lower bound
  is negative.
\<close>

definition lastHistory :: "'a list \<Rightarrow> 'a list option" where
  "lastHistory xs =
     (if length xs < historyLimit then None else Some (drop (length xs - historyLimit) xs))"

text \<open>
  \<open>saveSystemHistory\<close> (lines 280-303). The five trims run in the order of the source,
  each on the history as the trims before it left it.
\<close>

definition trimHistory :: "Baseline \<Rightarrow> Baseline outcome" where
  "trimHistory b =
     (let h = systemHistory b in
      if length (CPU h) > historyLimit then
        (case lastHistory (CPU h) of
           None \<Rightarrow> Panics b
         | Some c \<Rightarrow>
             let b = b\<lparr>systemHistory := (systemHistory b)\<lparr>CPU := c\<rparr>\<rparr> in
             case lastHistory (Memory h) of
               None \<Rightarrow> Panics b
             | Some m \<Rightarrow>
                 let b = b\<lparr>systemHistory := (systemHistory b)\<lparr>Memory := m\<rparr>\<rparr> in
                 case lastHistory (Timestamps h) of
                   None \<Rightarrow> Panics b
                 | Some t \<Rightarrow>
                     let b = b\<lparr>systemHistory := (systemHistory b)\<lparr>Timestamps := t\<rparr>\<rparr> in
                     case lastHistory (NetworkIn h) of
                       None \<Rightarrow> Panics b
                     | Some i \<Rightarrow>
                         let b = b\<lparr>systemHistory := (systemHistory b)\<lparr>NetworkIn := i\<rparr>\<rparr> in
                         case lastHistory (NetworkOut h) of
                           None \<Rightarrow> Panics b
                         | Some out \<Rightarrow>
                             Returns (b\<lparr>systemHistory := (systemHistory b)\<lparr>NetworkOut := out\<rparr>\<rparr>))
      else Returns b)"

definition saveSystemHistory :: "world \<Rightarrow> Baseline \<Rightarrow> Baseline outcome" where
  "saveSystemHistory w b =
     andThen (trimHistory b) (\<lambda>b.
       case fileWrite w of
         IoOk \<Rightarrow> Returns b
       | MarshalFailed e \<Rightarrow> addNotification w (runes ''Error marshalling history: '' @ e) (runes ''error'') b
       | WriteFailed e \<Rightarrow> addNotification w (runes ''Error saving history: '' @ e) (runes ''error'') b)"

section \<open>The system metrics producer\<close>

text \<open>
  One reading of the metrics provider: the CPU and memory percentages, the formatted
  time of day, and the byte counters of \<open>currentNetIO[0]\<close>, or \<open>None\<close> when
  \<open>net.IOCounters\<close> returned an empty slice.
\<close>

record sample =
  cpuPercent :: real
  memPercent :: real
  nowStr :: gostring
  netIO :: "(64 word \<times> 64 word) option"

text \<open>
  \<open>updateSystemInfo\<close> (lines 470-615), the part that writes the state: the history
  update of lines 543-552. The deferred \<open>Unlock\<close> also runs when the call panics.
\<close>

definition updateSystemInfo :: "world \<Rightarrow> sample \<Rightarrow> Baseline \<Rightarrow> Baseline outcome" where
  "updateSystemInfo w smp b =
     andThen (Lock b) (\<lambda>b.
       let h = systemHistory b;
           h = h\<lparr>CPU := CPU h @ [cpuPercent smp],
                 Memory := Memory h @ [memPercent smp],
                 Timestamps := Timestamps h @ [nowStr smp]\<rparr>;
           h = (case netIO smp of
                  None \<Rightarrow> h
                | Some (rx, tx) \<Rightarrow>
                    h\<lparr>NetworkIn := NetworkIn h @ [rx], NetworkOut := NetworkOut h @ [tx]\<rparr>)
       in case saveSystemHistory w (b\<lparr>systemHistory := h\<rparr>) of
            Returns b \<Rightarrow> Returns (Unlock b)
          | Blocks b \<Rightarrow> Blocks b
          | Panics b \<Rightarrow> Panics (Unlock b))"

text \<open>
  The five sequences of a history are aligned when they have one common length, which is
  at most \<open>historyLimit\<close>.
\<close>

definition aligned :: "SystemHistory \<Rightarrow> bool" where
  "aligned h =
     (length (Memory h) = length (CPU h) \<and> length (Timestamps h) = length (CPU h) \<and>
      length (NetworkIn h) = length (CPU h) \<and> length (NetworkOut h) = length (CPU h) \<and>
      length (CPU h) \<le> historyLimit)"

text \<open>
  The spec's words for an append to a capped sequence: the new entry goes last, and when
  the sequence was full its oldest entry is dropped.
\<close>

definition fifoAppend :: "'a list \<Rightarrow> 'a \<Rightarrow> 'a list" where
  "fifoAppend xs x = (if length xs = historyLimit then tl xs else xs) @ [x]"

section \<open>The weather producer\<close>

record weatherPayload =
  locationName :: gostring
  currentTempC :: real
  conditionText :: gostring
  currentHumidity :: int
  currentWindKph :: real

text \<open>
  The answer of the HTTP client: a transport error, a status other than 200 with the
  message decoded from the body (if it decoded), a body that does not parse, or the
  decoded payload.
\<close>

datatype http_result =
    TransportError gostring
  | ErrorStatus int "gostring option"
  | ParseError gostring
  | Ok200 weatherPayload

text \<open>\<open>updateWeather\<close> (lines 741-790) reads the state under \<open>RLock\<close> and writes a panel.\<close>

definition updateWeather :: "Baseline \<Rightarrow> Baseline outcome" where
  "updateWeather b = andThen (RLock b) (\<lambda>b. Returns b)"

text \<open>\<open>fetchWeather\<close> (lines 660-738).\<close>

definition fetchWeather :: "world \<Rightarrow> http_result \<Rightarrow> Baseline \<Rightarrow> Baseline outcome" where
  "fetchWeather w http b =
     andThen (Lock b) (\<lambda>b.
       let location = weatherLocation b;
           apiKey = weatherAPIKey b;
           b = Unlock b;
           fetchedInfo = \<lparr>Location = location, TempC = 0, Condition = [], Humidity = 0,
                          WindKph = 0, Error = [], LastUpdated = clock w\<rparr>;
           fetchedInfo =
             (if apiKey = [] then
                fetchedInfo\<lparr>TempC := 22, Condition := runes ''Partly Cloudy (Sample)'',
                             Humidity := 65, WindKph := 8, Error := runes ''API Key not set''\<rparr>
              else
                case http of
                  TransportError e \<Rightarrow> fetchedInfo\<lparr>Error := runes ''HTTP error: '' @ e\<rparr>
                | ErrorStatus code msg \<Rightarrow>
                    (case msg of
                       None \<Rightarrow> fetchedInfo\<lparr>Error := runes ''API error: Status '' @ Itoa code\<rparr>
                     | Some m \<Rightarrow>
                         if m \<noteq> [] then
                           fetchedInfo\<lparr>Error := runes ''API error: '' @ m @ runes '' ('' @ Itoa code @ runes '')''\<rparr>
                         else fetchedInfo\<lparr>Error := runes ''API error: Status '' @ Itoa code\<rparr>)
                | ParseError e \<Rightarrow> fetchedInfo\<lparr>Error := runes ''JSON parse error: '' @ e\<rparr>
                | Ok200 d \<Rightarrow>
                    fetchedInfo\<lparr>Location := locationName d, TempC := currentTempC d,
                                 Condition := conditionText d, Humidity := currentHumidity d,
                                 WindKph := currentWindKph d, Error := []\<rparr>)
       in andThen (Lock b) (\<lambda>b. updateWeather (Unlock (b\<lparr>weatherInfo := fetchedInfo\<rparr>))))"

section \<open>The todo panel\<close>

text \<open>
  The comparison of \<open>updateTodos\<close> (lines 868-879) orders two items by the rank of
  their lower-cased priority, an unknown priority ranking as medium.
\<close>

definition priorityRank :: "world \<Rightarrow> TodoItem \<Rightarrow> nat" where
  "priorityRank w item =
     (case map_of [(runes ''high'', 0), (runes ''medium'', 1), (runes ''low'', 2)]
             (ToLower (caseTable w) (Priority item)) of
        Some p \<Rightarrow> p
      | None \<Rightarrow> 1)"

definition priorityChar :: "world \<Rightarrow> TodoItem \<Rightarrow> rune" where
  "priorityChar w item =
     (let p = ToLower (caseTable w) (Priority item) in
      if p = runes ''high'' then of_char (CHR ''!'')
      else if p = runes ''low'' then of_char (CHR ''-'')
      else of_char (CHR ''o''))"

definition escapeBrackets :: "gostring \<Rightarrow> gostring" where
  "escapeBrackets s =
     concat (map (\<lambda>c. if c = of_char (CHR ''['') then runes ''[[''
                     else if c = of_char (CHR '']'') then runes '']]'' else [c]) s)"

fun todoRows :: "world \<Rightarrow> nat \<Rightarrow> TodoItem list \<Rightarrow> todoRow list" where
  "todoRows w i [] = []"
| "todoRows w i (item # items) =
     (i + 1, priorityChar w item, Done item, escapeBrackets (Text item))
       # todoRows w (i + 1) items"

text \<open>
  \<open>updateTodos\<close> (lines 863-935). \<open>sort.SliceStable\<close> is applied to \<open>b.todoItems\<close>
  itself; a stable sort by a key is the insertion sort \<open>sort_key\<close>. The panel update
  queued with \<open>QueueUpdateDraw\<close> is taken as done when the function returns.
\<close>

definition updateTodos :: "world \<Rightarrow> Baseline \<Rightarrow> Baseline outcome" where
  "updateTodos w b =
     andThen (Lock b) (\<lambda>b.
       let b = b\<lparr>todoItems := sort_key (priorityRank w) (todoItems b)\<rparr>
       in Returns (Unlock (b\<lparr>todoPanel := todoRows w 0 (todoItems b)\<rparr>)))"

section \<open>The command dispatcher\<close>

text \<open>
  The branches of the \<open>switch\<close> of \<open>processCommand\<close> (lines 1029-1120). A branch
  returns the state and the goroutines that its flags (\<open>needsTodoUpdate\<close>,
  \<open>needsThemeUpdate\<close>, \<open>needsWeatherUpdate\<close>) make the end of the function start.
\<close>

definition notify :: "world \<Rightarrow> gostring \<Rightarrow> gostring \<Rightarrow> task list \<Rightarrow> Baseline \<Rightarrow> (Baseline \<times> task list) outcome" where
  "notify w message msgType tasks b =
     andThen (addNotification w message msgType b) (\<lambda>b. Returns (b, tasks))"

definition themeCommand :: "world \<Rightarrow> gostring list \<Rightarrow> Baseline \<Rightarrow> (Baseline \<times> task list) outcome" where
  "themeCommand w args b =
     (if length args = 1 then
        let themeName = hd args in
        case map_of themes themeName of
          Some newTheme \<Rightarrow>
            notify w (runes ''Theme changed to '' @ themeName) (runes ''success'') [ApplyTheme]
              (b\<lparr>theme := newTheme\<rparr>)
        | None \<Rightarrow>
            notify w (runes ''Unknown theme: '' @ themeName @ runes ''. Available: ''
                        @ Join (rangeThemes w) (runes '', '')) (runes ''error'') [] b
      else notify w (runes ''Usage: theme <themename>'') (runes ''error'') [] b)"

definition validIndex :: "gostring \<Rightarrow> Baseline \<Rightarrow> nat option" where
  "validIndex arg b =
     (case Atoi arg of
        None \<Rightarrow> None
      | Some index \<Rightarrow>
          if index \<ge> 1 \<and> index \<le> int (length (todoItems b)) then Some (nat index) else None)"

definition todoCommand :: "world \<Rightarrow> gostring list \<Rightarrow> Baseline \<Rightarrow> (Baseline \<times> task list) outcome" where
  "todoCommand w args b =
     (if length args > 0 then
        let subCmd = hd args; todoArgs = tl args in
        if subCmd = runes ''add'' then
          (if length todoArgs > 0 then
             let text = Join todoArgs (runes '' '');
                 b = b\<lparr>todoItems := todoItems b @ [\<lparr>Text = text, Done = False, Priority = runes ''medium''\<rparr>]\<rparr>
             in andThen (saveTodos w b)
                  (notify w (runes ''Added todo: '' @ text) (runes ''success'') [UpdateTodos])
           else notify w (runes ''Usage: todo add <task text>'') (runes ''error'') [] b)
        else if subCmd = runes ''toggle'' \<or> subCmd = runes ''done'' then
          (if length todoArgs = 1 then
             case validIndex (hd todoArgs) b of
               Some index \<Rightarrow>
                 let item = todoItems b ! (index - 1);
                     b = b\<lparr>todoItems := (todoItems b)[index - 1 := item\<lparr>Done := \<not> Done item\<rparr>]\<rparr>
                 in andThen (saveTodos w b)
                      (notify w (runes ''Toggled todo #'' @ Itoa (int index)) (runes ''success'') [UpdateTodos])
             | None \<Rightarrow> notify w (runes ''Invalid todo index: '' @ hd todoArgs) (runes ''error'') [] b
           else notify w (runes ''Usage: todo toggle <index>'') (runes ''error'') [] b)
        else if subCmd = runes ''delete'' \<or> subCmd = runes ''rm'' then
          (if length todoArgs = 1 then
             case validIndex (hd todoArgs) b of
               Some index \<Rightarrow>
                 let deleted = todoItems b ! (index - 1);
                     b = b\<lparr>todoItems := take (index - 1) (todoItems b) @ drop index (todoItems b)\<rparr>
                 in andThen (saveTodos w b)
                      (notify w (runes ''Deleted todo: '' @ Text deleted) (runes ''success'') [UpdateTodos])
             | None \<Rightarrow> notify w (runes ''Invalid todo index: '' @ hd todoArgs) (runes ''error'') [] b
           else notify w (runes ''Usage: todo delete <index>'') (runes ''error'') [] b)
        else notify w (runes ''Unknown todo command: '' @ subCmd) (runes ''error'') [] b
      else notify w (runes ''Todo commands: add, toggle, delete'') (runes ''info'') [] b)"

definition weatherCommand :: "world \<Rightarrow> gostring list \<Rightarrow> Baseline \<Rightarrow> (Baseline \<times> task list) outcome" where
  "weatherCommand w args b =
     (if length args > 0 \<and> hd args = runes ''set'' \<and> length args > 1 then
        let location = Join (tl args) (runes '' '')
        in notify w (runes ''Weather location set to: '' @ location @ runes ''. Fetching...'') (runes ''success'')
             [FetchWeather] (b\<lparr>weatherLocation := location\<rparr>)
      else notify w (runes ''Usage: weather set <location>'') (runes ''error'') [] b)"

definition commandSwitch :: "world \<Rightarrow> gostring \<Rightarrow> gostring \<Rightarrow> gostring list \<Rightarrow> Baseline \<Rightarrow> (Baseline \<times> task list) outcome" where
  "commandSwitch w command cmd args b =
     (if cmd = runes ''help'' \<or> cmd = runes ''?'' then
        notify w (runes ''Cmds: help, todo, weather, clear, exit, theme, shortcut'') (runes ''info'') [] b
      else if cmd = runes ''exit'' \<or> cmd = runes ''quit'' \<or> cmd = runes ''q'' then
        Returns (b\<lparr>stopped := True\<rparr>, [])
      else if cmd = runes ''clear'' then
        notify w (runes ''Notifications cleared'') (runes ''success'') [] (b\<lparr>notifications := []\<rparr>)
      else if cmd = runes ''shortcut'' then
        notify w (runes ''Shortcuts: N(ew), T(oggle), D(elete), P(rio), Q(uit), :(Cmd), ?(Help)'')
          (runes ''info'') [] b
      else if cmd = runes ''theme'' then themeCommand w args b
      else if cmd = runes ''todo'' then todoCommand w args b
      else if cmd = runes ''weather'' then weatherCommand w args b
      else notify w (runes ''Unknown command: '' @ command) (runes ''error'') [] b)"

text \<open>
  \<open>processCommand\<close> (lines 1007-1137). The mutex is taken on entry and released by the
  deferred \<open>Unlock\<close> when the function returns. \<open>parts[0]\<close> panics on an empty slice.
\<close>

definition processCommand :: "world \<Rightarrow> gostring \<Rightarrow> Baseline \<Rightarrow> Baseline outcome" where
  "processCommand w command b =
     andThen (Lock b) (\<lambda>b.
       let command = TrimSpace (ToLower (caseTable w) command) in
       if command = [] then Returns (Unlock b)
       else
         let h = commandHistory b @ [command];
             b = b\<lparr>commandHistory := (if length h > 20 then drop (length h - 20) h else h)\<rparr>
         in case Fields command of
              [] \<Rightarrow> Panics (Unlock b)
            | cmd # args \<Rightarrow>
                andThen (commandSwitch w command cmd args b) (\<lambda>(b, tasks).
                  Returns (Unlock (b\<lparr>cmdInput := [], spawned := spawned b @ tasks\<rparr>))))"

section \<open>The input router\<close>

fun firstIndex :: "('a \<Rightarrow> bool) \<Rightarrow> 'a list \<Rightarrow> nat option" where
  "firstIndex P [] = None"
| "firstIndex P (x # xs) =
     (if P x then Some 0 else case firstIndex P xs of None \<Rightarrow> None | Some i \<Rightarrow> Some (i + 1))"

definition priorities :: "gostring list" where
  "priorities = [runes ''low'', runes ''medium'', runes ''high'']"

text \<open>
  The priority that the shortcut \<open>p\<close> computes for an item (lines 1215-1226):
  \<open>None\<close> when the lower-cased priority is not in \<open>priorities\<close> (\<open>currentIdx\<close> stays
  \<open>-1\<close>).
\<close>

definition nextPriority :: "world \<Rightarrow> gostring \<Rightarrow> gostring option" where
  "nextPriority w p =
     (let currentPrio = ToLower (caseTable w) p;
          currentPrio = (if currentPrio = [] then (runes ''medium'') else currentPrio)
      in case firstIndex (\<lambda>q. q = currentPrio) priorities of
           None \<Rightarrow> None
         | Some currentIdx \<Rightarrow> Some (priorities ! ((currentIdx + 1) mod length priorities)))"

text \<open>
  \<open>inputHandler\<close> (lines 1140-1268). The result says whether the key event was consumed
  (the function returned \<open>nil\<close>). Every handled key returns inside the \<open>switch\<close>, so
  the goroutines after it are started for no key.
\<close>

definition handled :: "Baseline \<Rightarrow> (Baseline \<times> bool) outcome" where
  "handled b = Returns (Unlock b, True)"

definition inputHandler :: "world \<Rightarrow> rune \<Rightarrow> Baseline \<Rightarrow> (Baseline \<times> bool) outcome" where
  "inputHandler w rune b =
     (if cmdInputFocused b then Returns (b, False)
      else
        andThen (Lock b) (\<lambda>b.
          if rune = of_char (CHR '':'') then
            handled (b\<lparr>currentFocus := runes ''command'', cmdInputFocused := True\<rparr>)
          else if rune = of_char (CHR ''q'') then handled (b\<lparr>stopped := True\<rparr>)
          else if rune = of_char (CHR ''?'') then
            andThen (addNotification w
                       (runes ''Keys: N(ew), T(oggle), D(elete), P(rio), Q(uit), :(Cmd), ?(Help)'')
                       (runes ''info'') b) handled
          else if rune = of_char (CHR ''n'') then
            andThen (addNotification w (runes ''Use ':todo add <task>' to add a new task'') (runes ''info'') b)
              handled
          else if rune = of_char (CHR ''t'') then
            (case firstIndex (\<lambda>item. \<not> Done item) (todoItems b) of
               Some i \<Rightarrow>
                 let b = b\<lparr>todoItems := (todoItems b)[i := (todoItems b ! i)\<lparr>Done := True\<rparr>]\<rparr>
                 in andThen (saveTodos w b) (\<lambda>b.
                      andThen (addNotification w (runes ''Completed: '' @ Text (todoItems b ! i))
                                 (runes ''success'') b) handled)
             | None \<Rightarrow>
                 andThen (addNotification w (runes ''No pending tasks to toggle.'') (runes ''info'') b) handled)
          else if rune = of_char (CHR ''d'') then
            (case firstIndex Done (todoItems b) of
               Some i \<Rightarrow>
                 let deletedText = Text (todoItems b ! i);
                     b = b\<lparr>todoItems := take i (todoItems b) @ drop (i + 1) (todoItems b)\<rparr>
                 in andThen (saveTodos w b) (\<lambda>b.
                      andThen (addNotification w (runes ''Deleted: '' @ deletedText) (runes ''success'') b)
                        handled)
             | None \<Rightarrow>
                 andThen (addNotification w (runes ''No completed tasks to delete.'') (runes ''info'') b) handled)
          else if rune = of_char (CHR ''p'') then
            (case firstIndex (\<lambda>item. \<not> Done item) (todoItems b) of
               Some i \<Rightarrow>
                 (case nextPriority w (Priority (todoItems b ! i)) of
                    Some next \<Rightarrow>
                      let b = b\<lparr>todoItems := (todoItems b)[i := (todoItems b ! i)\<lparr>Priority := next\<rparr>]\<rparr>
                      in andThen (saveTodos w b) (\<lambda>b.
                           andThen (addNotification w
                                      (runes ''Priority set to '' @ next @ runes '' for: ''
                                         @ Text (todoItems b ! i)) (runes ''success'') b) handled)
                  | None \<Rightarrow>
                      andThen (addNotification w (runes ''No pending tasks to change priority.'')
                                 (runes ''info'') b) handled)
             | None \<Rightarrow>
                 andThen (addNotification w (runes ''No pending tasks to change priority.'') (runes ''info'') b)
                   handled)
          else Returns (Unlock b, False)))"

section \<open>Runs of the program\<close>

text \<open>
  The calls that the event loop, the tickers and start-up make into the state, each with
  the world it meets. \<open>step\<close> gives the state in which a call ends (returned, blocked or
  panicked), \<open>run\<close> a sequence of calls. A run goes on after a call that blocked or
  panicked, so it covers more than the program can do: what holds after every run holds
  in every state the program reaches.
\<close>

datatype call =
    Command gostring
  | Key rune
  | Notify gostring gostring
  | Tick sample
  | Weather http_result
  | Redraw

fun ended :: "(Baseline \<times> 'a) outcome \<Rightarrow> Baseline" where
  "ended (Returns (b, x)) = b"
| "ended (Blocks b) = b"
| "ended (Panics b) = b"

fun step :: "world \<Rightarrow> call \<Rightarrow> Baseline \<Rightarrow> Baseline" where
  "step w (Command command) b = final (processCommand w command b)"
| "step w (Key rune) b = ended (inputHandler w rune b)"
| "step w (Notify message msgType) b = final (addNotification w message msgType b)"
| "step w (Tick smp) b = final (updateSystemInfo w smp b)"
| "step w (Weather http) b = final (fetchWeather w http b)"
| "step w Redraw b = final (updateTodos w b)"

fun run :: "(world \<times> call) list \<Rightarrow> Baseline \<Rightarrow> Baseline" where
  "run [] b = b"
| "run ((w, c) # cs) b = run cs (step w c b)"

section \<open>States and worlds for concrete runs\<close>

text \<open>
  The dashboard at rest with a given todo list: the mutex free, no notification, empty
  histories, the focus on the dashboard, the amber theme, no API key, the default
  location.
\<close>

definition dashboard :: "TodoItem list \<Rightarrow> Baseline" where
  "dashboard items =
     \<lparr>mu = False, todoItems = items, notifications = [],
      systemHistory = \<lparr>CPU = [], Memory = [], Timestamps = [], NetworkIn = [], NetworkOut = []\<rparr>,
      weatherInfo = \<lparr>Location = [], TempC = 0, Condition = [], Humidity = 0, WindKph = 0,
                     Error = [], LastUpdated = 0\<rparr>,
      currentFocus = runes ''dashboard'', commandHistory = [],
      theme = \<lparr>Main = 0xFFBF00, Dim = 0xCC9900, Bright = 0xFFDF00\<rparr>,
      weatherAPIKey = [], weatherLocation = runes ''Lahore'', stopped = False, cmdInput = [],
      cmdInputFocused = False, spawned = [], todoPanel = []\<rparr>"

text \<open>
  A lower-case table for concrete runs: it agrees with Go's table on Latin-1 (the capital
  letters U+00C0 to U+00DE except the multiplication sign) and leaves every other rune
  as it is.
\<close>

definition latin1Lower :: "rune \<Rightarrow> rune" where
  "latin1Lower r = (if 0xC0 \<le> r \<and> r \<le> 0xDE \<and> r \<noteq> 0xD7 then r + 32 else r)"

text \<open>A world in which file writes succeed, at a given time.\<close>

definition calm :: "time \<Rightarrow> world" where
  "calm t =
     \<lparr>clock = t, fileWrite = IoOk,
      rangeThemes = [runes ''amber'', runes ''green'', runes ''blue''],
      caseTable = latin1Lower\<rparr>"

section \<open>Facts about literals\<close>

lemma runes_eq_iff: "runes s = runes t \<longleftrightarrow> s = t"
proof -
  have "inj (of_char :: char \<Rightarrow> nat)"
    by (rule injI) simp
  then show ?thesis
    by (simp add: runes_def inj_map_eq_map)
qed

section \<open>Facts about the mutex\<close>

text \<open>
  A function that calls \<open>addNotification\<close> while the mutex is held never gets past the
  \<open>Lock\<close> in it.
\<close>

lemma addNotification_held:
  "mu b \<Longrightarrow> addNotification w message msgType b = Blocks b"
  by (simp add: addNotification_def Lock_def)

lemma notify_held: "mu b \<Longrightarrow> notify w message msgType tasks b = Blocks b"
  by (simp add: notify_def addNotification_held)

lemma saveTodos_held_notify:
  "mu b \<Longrightarrow> andThen (saveTodos w b) (notify w message msgType tasks) = Blocks b"
  by (cases "fileWrite w") (simp_all add: saveTodos_def addNotification_held notify_held)

lemma saveTodos_held:
  "mu b \<Longrightarrow> saveTodos w b = (if fileWrite w = IoOk then Returns b else Blocks b)"
  by (cases "fileWrite w") (simp_all add: saveTodos_def addNotification_held)

text \<open>
  \<open>processCommand\<close> holds the mutex while it runs the \<open>switch\<close>, and every branch
  but \<open>exit\<close> ends in \<open>addNotification\<close>: the call blocks there and never returns.
\<close>

lemma commandSwitch_blocks:
  assumes "mu b" and "cmd \<noteq> runes ''exit''" and "cmd \<noteq> runes ''quit''" and "cmd \<noteq> runes ''q''"
  shows "\<exists>b'. commandSwitch w command cmd args b = Blocks b' \<and> mu b'"
  using assms
  by (simp add: commandSwitch_def themeCommand_def todoCommand_def weatherCommand_def
      notify_held saveTodos_held_notify runes_eq_iff Let_def split: option.split)

lemma processCommand_blocks:
  assumes "\<not> mu b" and "Fields (TrimSpace (ToLower (caseTable w) command)) = cmd # args"
    and "cmd \<noteq> runes ''exit''" and "cmd \<noteq> runes ''quit''" and "cmd \<noteq> runes ''q''"
  shows "\<exists>b'. processCommand w command b = Blocks b' \<and> mu b'"
proof -
  have nonblank: "TrimSpace (ToLower (caseTable w) command) \<noteq> []"
    using assms(2) by (auto simp add: Fields_def)
  define h where "h = commandHistory b @ [TrimSpace (ToLower (caseTable w) command)]"
  define b1 where
    "b1 = b\<lparr>mu := True, commandHistory := (if length h > 20 then drop (length h - 20) h else h)\<rparr>"
  have held: "mu b1"
    by (simp add: b1_def)
  have unfold: "processCommand w command b =
      andThen (commandSwitch w (TrimSpace (ToLower (caseTable w) command)) cmd args b1) (\<lambda>(b, tasks).
        Returns (Unlock (b\<lparr>cmdInput := [], spawned := spawned b @ tasks\<rparr>)))"
    using assms(1,2) nonblank
    by (simp add: processCommand_def Lock_def Let_def b1_def h_def)
  from commandSwitch_blocks [OF held assms(3-5), of w "TrimSpace (ToLower (caseTable w) command)" args]
  show ?thesis
    by (auto simp add: unfold)
qed

text \<open>The definitions that a run of \<open>processCommand\<close> on a concrete line unfolds.\<close>

lemmas run_defs = processCommand_def Lock_def Unlock_def runes_def ToLower_def toLowerRune_def
  latin1Lower_def TrimSpace_def isSpace_def Fields_def commandSwitch_def themeCommand_def
  todoCommand_def weatherCommand_def notify_def saveTodos_def addNotification_def
  validIndex_def Atoi_def digitVal_def themes_def dashboard_def calm_def Let_def

section \<open>Facts about the string functions\<close>

lemma ToLower_literal:
  "ToLower tbl (runes ''todo'') = runes ''todo''"
  "ToLower tbl (runes ''add'') = runes ''add''"
  "ToLower tbl (runes '' '') = runes '' ''"
  by (simp_all add: ToLower_def toLowerRune_def runes_def)

lemma ToLower_Join:
  "ToLower tbl (Join ws sep) = Join (map (ToLower tbl) ws) (ToLower tbl sep)"
  by (induction ws sep rule: Join.induct) (simp_all add: ToLower_def)

text \<open>White space at either end of a string does not change its fields.\<close>

lemma fieldsFrom_blank:
  "list_all isSpace sp \<Longrightarrow> fieldsFrom sp cur = (if cur = [] then [] else [cur])"
  by (induction sp arbitrary: cur) simp_all

lemma fieldsFrom_append_blank:
  "list_all isSpace sp \<Longrightarrow> fieldsFrom (t @ sp) cur = fieldsFrom t cur"
  by (induction t arbitrary: cur) (simp_all add: fieldsFrom_blank)

lemma fieldsFrom_dropWhile: "fieldsFrom (dropWhile isSpace s) [] = fieldsFrom s []"
  by (induction s) simp_all

lemma Fields_TrimSpace: "Fields (TrimSpace s) = Fields s"
proof -
  define t where "t = dropWhile isSpace s"
  define sp where "sp = rev (takeWhile isSpace (rev t))"
  have blank: "list_all isSpace sp"
    by (auto simp add: sp_def list_all_iff dest: set_takeWhileD)
  have "rev (takeWhile isSpace (rev t) @ dropWhile isSpace (rev t)) = rev (rev t)"
    by (simp only: takeWhile_dropWhile_id)
  then have split: "rev (dropWhile isSpace (rev t)) @ sp = t"
    by (simp only: rev_append rev_rev_ident sp_def)
  have "fieldsFrom (rev (dropWhile isSpace (rev t))) []
          = fieldsFrom (rev (dropWhile isSpace (rev t)) @ sp) []"
    using blank by (simp only: fieldsFrom_append_blank)
  also have "\<dots> = fieldsFrom t []"
    using split by simp
  also have "\<dots> = fieldsFrom s []"
    by (simp add: t_def fieldsFrom_dropWhile)
  finally show ?thesis
    by (simp add: Fields_def TrimSpace_def t_def)
qed

lemma TrimSpace_blank: "list_all isSpace s \<Longrightarrow> TrimSpace s = []"
proof -
  assume "list_all isSpace s"
  then have "\<forall>r \<in> set s. isSpace r"
    by (simp add: list_all_iff)
  then have empty: "dropWhile isSpace s = []"
    by (simp only: dropWhile_eq_Nil_conv)
  show ?thesis
    unfolding TrimSpace_def empty by simp
qed

lemma TrimSpace_not_blank: "Fields s \<noteq> [] \<Longrightarrow> TrimSpace s \<noteq> []"
proof
  assume fields: "Fields s \<noteq> []" and "TrimSpace s = []"
  then have "Fields (TrimSpace s) = []"
    by (simp add: Fields_def)
  with fields show False
    by (simp add: Fields_TrimSpace)
qed

text \<open>
  Under a table that leaves white space in place, lower-casing a string lower-cases its
  fields one by one.
\<close>

lemma fieldsFrom_map:
  assumes "\<forall>r. isSpace (f r) = isSpace r"
  shows "fieldsFrom (map f s) (map f cur) = map (map f) (fieldsFrom s cur)"
proof (induction s arbitrary: cur)
  case Nil
  show ?case by simp
next
  case (Cons c cs)
  from Cons [of "[]"] Cons [of "cur @ [c]"] assms show ?case
    by simp
qed

lemma Fields_ToLower:
  "spaceStable tbl \<Longrightarrow> Fields (ToLower tbl s) = map (ToLower tbl) (Fields s)"
  using fieldsFrom_map [of "toLowerRune tbl" s "[]"]
  by (simp add: spaceStable_def Fields_def ToLower_def)

lemma spaceStable_latin1Lower: "spaceStable latin1Lower"
  by (auto simp add: spaceStable_def isSpace_def toLowerRune_def latin1Lower_def)

section \<open>Which calls write the notification queue\<close>

text \<open>
  Only \<open>addNotification\<close> appends to the queue, and only the command \<open>clear\<close>
  empties it; every other call leaves it as it was.
\<close>

lemma commandSwitch_notifications:
  assumes "mu b"
  shows "(\<exists>b'. commandSwitch w command cmd args b = Blocks b' \<and>
            (notifications b' = notifications b \<or> notifications b' = [])) \<or>
         commandSwitch w command cmd args b = Returns (b\<lparr>stopped := True\<rparr>, [])"
  using assms
  by (simp add: commandSwitch_def themeCommand_def todoCommand_def weatherCommand_def
      notify_held saveTodos_held_notify runes_eq_iff Let_def split: option.split)


lemma processCommand_notifications:
  "notifications (final (processCommand w command b)) = notifications b \<or>
   notifications (final (processCommand w command b)) = []"
proof (cases "mu b")
  case True
  then show ?thesis
    by (simp add: processCommand_def Lock_def)
next
  case False
  show ?thesis
  proof (cases "TrimSpace (ToLower (caseTable w) command) = []")
    case True
    with False show ?thesis
      by (simp add: processCommand_def Lock_def Unlock_def)
  next
    case nonblank: False
    define h where "h = commandHistory b @ [TrimSpace (ToLower (caseTable w) command)]"
    define b1 where
      "b1 = b\<lparr>mu := True, commandHistory := (if length h > 20 then drop (length h - 20) h else h)\<rparr>"
    have held: "mu b1" and same: "notifications b1 = notifications b"
      by (simp_all add: b1_def)
    show ?thesis
    proof (cases "Fields (TrimSpace (ToLower (caseTable w) command))")
      case Nil
      with False nonblank show ?thesis
        by (simp add: processCommand_def Lock_def Unlock_def Let_def)
    next
      case (Cons cmd args)
      have unfold: "processCommand w command b =
          andThen (commandSwitch w (TrimSpace (ToLower (caseTable w) command)) cmd args b1) (\<lambda>(b, tasks).
            Returns (Unlock (b\<lparr>cmdInput := [], spawned := spawned b @ tasks\<rparr>)))"
        using False nonblank Cons
        by (simp add: processCommand_def Lock_def Let_def b1_def h_def)
      from commandSwitch_notifications [OF held, of w "TrimSpace (ToLower (caseTable w) command)" cmd args]
      show ?thesis
        by (auto simp add: unfold same Unlock_def)
    qed
  qed
qed

lemma inputHandler_notifications:
  "notifications (ended (inputHandler w rune b)) = notifications b"
  by (simp add: inputHandler_def Lock_def Unlock_def handled_def addNotification_held
      saveTodos_held Let_def split: option.split)

lemma trimHistory_notifications: "notifications (final (trimHistory b)) = notifications b"
  by (simp add: trimHistory_def Let_def split: option.split)


lemma trimHistory_frame:
  "\<exists>b'. (trimHistory b = Returns b' \<or> trimHistory b = Panics b') \<and>
        mu b' = mu b \<and> notifications b' = notifications b"
  by (simp add: trimHistory_def Let_def split: option.split)

lemma saveSystemHistory_notifications:
  assumes "mu b"
  shows "notifications (final (saveSystemHistory w b)) = notifications b"
proof -
  from trimHistory_frame [of b] obtain b' where
    t: "trimHistory b = Returns b' \<or> trimHistory b = Panics b'"
    and "mu b' = mu b" and n: "notifications b' = notifications b"
    by blast
  with assms have "mu b'"
    by simp
  with t n show ?thesis
    by (cases "fileWrite w") (auto simp add: saveSystemHistory_def addNotification_held)
qed

lemma unlocked_save_notifications:
  assumes "mu b"
  shows "notifications (final (case saveSystemHistory w b of
             Returns b \<Rightarrow> Returns (Unlock b)
           | Blocks b \<Rightarrow> Blocks b
           | Panics b \<Rightarrow> Panics (Unlock b))) = notifications b"
  using saveSystemHistory_notifications [OF assms, of w]
  by (cases "saveSystemHistory w b") (simp_all add: Unlock_def)

lemma updateSystemInfo_notifications:
  "notifications (final (updateSystemInfo w smp b)) = notifications b"
  by (simp add: updateSystemInfo_def Lock_def Let_def unlocked_save_notifications)

lemma fetchWeather_notifications:
  "notifications (final (fetchWeather w http b)) = notifications b"
  by (simp add: fetchWeather_def Lock_def Unlock_def RLock_def updateWeather_def Let_def)

lemma updateTodos_notifications:
  "notifications (final (updateTodos w b)) = notifications b"
  by (simp add: updateTodos_def Lock_def Unlock_def Let_def)

lemma addNotification_at_most_five:
  "length (notifications b) \<le> 5 \<Longrightarrow>
   length (notifications (final (addNotification w message msgType b))) \<le> 5"
  by (simp add: addNotification_def Lock_def Unlock_def Let_def)

lemma step_at_most_five:
  assumes "length (notifications b) \<le> 5"
  shows "length (notifications (step w c b)) \<le> 5"
proof (cases c)
  case (Command command)
  with assms processCommand_notifications [of w command b] show ?thesis
    by auto
next
  case (Key rune)
  with assms show ?thesis
    by (simp add: inputHandler_notifications)
next
  case (Notify message msgType)
  with assms show ?thesis
    by (simp add: addNotification_at_most_five)
next
  case (Tick smp)
  with assms show ?thesis
    by (simp add: updateSystemInfo_notifications)
next
  case (Weather http)
  with assms show ?thesis
    by (simp add: fetchWeather_notifications)
next
  case Redraw
  with assms show ?thesis
    by (simp add: updateTodos_notifications)
qed

lemma run_at_most_five:
  "length (notifications b) \<le> 5 \<Longrightarrow> length (notifications (run cs b)) \<le> 5"
proof (induction cs arbitrary: b)
  case Nil
  then show ?case by simp
next
  case (Cons wc cs)
  obtain w c where "wc = (w, c)"
    by (cases wc)
  with Cons show ?case
    by (simp add: step_at_most_five)
qed

section \<open>C10: a blank command line\<close>

text \<open>
  C10. Dispatching a command line that is empty or made of white space only (any runes
  that \<open>unicode.IsSpace\<close> accepts) changes nothing: \<open>processCommand\<close> returns the very
  state it was called in (no notification, no entry in \<open>commandHistory\<close>, every field as
  before). Called while the mutex is held it waits in \<open>Lock\<close>, in that same state. The
  lower-case table is asked only to map white space to white space, as Go's does.
\<close>

theorem processCommand_blank:
  assumes "list_all isSpace command"
    and "\<forall>r. isSpace r \<longrightarrow> isSpace (toLowerRune (caseTable w) r)"
  shows "processCommand w command b = (if mu b then Blocks b else Returns b)"
proof -
  have "list_all isSpace (ToLower (caseTable w) command)"
    using assms by (simp add: ToLower_def list_all_iff)
  then have "TrimSpace (ToLower (caseTable w) command) = []"
    by (rule TrimSpace_blank)
  then show ?thesis
    by (simp add: processCommand_def Lock_def Unlock_def)
qed

theorem processCommand_blank_witness:
  "list_all isSpace [0x20, 0x09, 0xA0, 0x3000, 0x2003] \<and>
   processCommand (calm 3) [0x20, 0x09, 0xA0, 0x3000, 0x2003] (dashboard []) =
     Returns (dashboard []) \<and>
   processCommand (calm 3) [] (dashboard []) = Returns (dashboard [])"
proof -
  have table: "\<forall>r. isSpace r \<longrightarrow> isSpace (toLowerRune (caseTable (calm 3)) r)"
    using spaceStable_latin1Lower by (simp add: spaceStable_def calm_def)
  have blank: "list_all isSpace [0x20, 0x09, 0xA0, 0x3000, 0x2003]"
    by (simp add: isSpace_def)
  have free: "\<not> mu (dashboard [])"
    by (simp add: dashboard_def)
  from processCommand_blank [OF blank table, of "dashboard []"]
    processCommand_blank [OF _ table, of "[]" "dashboard []"] blank free
  show ?thesis
    by simp
qed

section \<open>C9: the weather fetch without an API key\<close>

text \<open>
  C9. A weather fetch made while the API key is unset returns with a snapshot that carries
  the non-empty error text, the fixed sample temperature, condition, humidity and wind,
  the configured location, and the time of the fetch in \<open>LastUpdated\<close>. The snapshot
  replaces the previous one as a whole: no field of the old snapshot survives, and no
  other field of the state changes.
\<close>

theorem fetchWeather_sample:
  "\<not> mu b \<Longrightarrow> weatherAPIKey b = [] \<Longrightarrow>
   fetchWeather w http b =
     Returns (b\<lparr>weatherInfo :=
       \<lparr>Location = weatherLocation b, TempC = 22, Condition = runes ''Partly Cloudy (Sample)'',
        Humidity = 65, WindKph = 8, Error = runes ''API Key not set'', LastUpdated = clock w\<rparr>\<rparr>)"
  by (simp add: fetchWeather_def Lock_def Unlock_def RLock_def updateWeather_def)

theorem fetchWeather_sample_witness:
  "\<not> mu (dashboard []) \<and> weatherAPIKey (dashboard []) = [] \<and>
   Error (weatherInfo (final (fetchWeather (calm 41) (TransportError (runes ''down'')) (dashboard [])))) \<noteq> [] \<and>
   weatherInfo (final (fetchWeather (calm 41) (TransportError (runes ''down'')) (dashboard []))) =
     \<lparr>Location = runes ''Lahore'', TempC = 22, Condition = runes ''Partly Cloudy (Sample)'',
      Humidity = 65, WindKph = 8, Error = runes ''API Key not set'', LastUpdated = 41\<rparr>"
  using fetchWeather_sample [of "dashboard []" "calm 41" "TransportError (runes ''down'')"]
  by (simp add: dashboard_def calm_def runes_def)

section \<open>C4: the notification queue\<close>

lemma addNotification_push:
  assumes "\<not> mu b" and "length (notifications b) \<le> 5"
  shows "\<exists>b'. addNotification w message msgType b = Returns b' \<and>
           length (notifications b') \<le> 5 \<and>
           last (notifications b') = \<lparr>Message = message, Type = msgType, Time = clock w\<rparr> \<and>
           notifications b' =
             (if length (notifications b) = 5 then tl (notifications b) else notifications b)
               @ [\<lparr>Message = message, Type = msgType, Time = clock w\<rparr>]"
proof (cases "length (notifications b) = 5")
  case True
  then obtain a list where "notifications b = a # list" and "length list = 4"
    by (cases "notifications b") auto
  with assms(1) show ?thesis
    by (simp add: addNotification_def Lock_def Unlock_def)
next
  case False
  with assms show ?thesis
    by (simp add: addNotification_def Lock_def Unlock_def)
qed

text \<open>
  C4. The notification queue never holds more than five entries: from a state whose
  queue has at most five, every run of calls ends in such a state. A push made with the
  mutex free returns; its entry carries the message, the kind and the current time and
  is the last of the queue; on a queue of five the oldest entry is dropped and the other
  four keep their order in front of the new one, on a shorter queue nothing is dropped.
\<close>

theorem notifications_at_most_five:
  assumes "length (notifications b) \<le> 5"
  shows "length (notifications (run cs b)) \<le> 5 \<and>
         (\<not> mu b \<longrightarrow>
          (\<exists>b'. addNotification w message msgType b = Returns b' \<and>
             length (notifications b') \<le> 5 \<and>
             last (notifications b') = \<lparr>Message = message, Type = msgType, Time = clock w\<rparr> \<and>
             notifications b' =
               (if length (notifications b) = 5 then tl (notifications b) else notifications b)
                 @ [\<lparr>Message = message, Type = msgType, Time = clock w\<rparr>]))"
proof (cases "mu b")
  case True
  with assms show ?thesis
    by (simp add: run_at_most_five)
next
  case False
  from addNotification_push [OF False assms, of w message msgType]
    run_at_most_five [OF assms, of cs]
  show ?thesis
    by blast
qed

theorem notifications_at_most_five_witness:
  "length (notifications ((dashboard [])\<lparr>notifications :=
      map (\<lambda>t. \<lparr>Message = runes ''note'', Type = runes ''info'', Time = t\<rparr>) [1, 2, 3, 4, 5]\<rparr>)) \<le> 5 \<and>
   length (notifications (run [(calm 6, Notify (runes ''sixth'') (runes ''error'')), (calm 7, Command (runes ''help''))]
      ((dashboard [])\<lparr>notifications :=
         map (\<lambda>t. \<lparr>Message = runes ''note'', Type = runes ''info'', Time = t\<rparr>) [1, 2, 3, 4, 5]\<rparr>))) \<le> 5 \<and>
   notifications (final (addNotification (calm 6) (runes ''sixth'') (runes ''error'')
      ((dashboard [])\<lparr>notifications :=
         map (\<lambda>t. \<lparr>Message = runes ''note'', Type = runes ''info'', Time = t\<rparr>) [1, 2, 3, 4, 5]\<rparr>))) =
     map (\<lambda>t. \<lparr>Message = runes ''note'', Type = runes ''info'', Time = t\<rparr>) [2, 3, 4, 5]
       @ [\<lparr>Message = runes ''sixth'', Type = runes ''error'', Time = 6\<rparr>]"
  using notifications_at_most_five [of "(dashboard [])\<lparr>notifications :=
      map (\<lambda>t. \<lparr>Message = runes ''note'', Type = runes ''info'', Time = t\<rparr>) [1, 2, 3, 4, 5]\<rparr>"
      "[(calm 6, Notify (runes ''sixth'') (runes ''error'')), (calm 7, Command (runes ''help''))]"
      "calm 6" "(runes ''sixth'')" "(runes ''error'')"]
  by (auto simp add: dashboard_def calm_def)

section \<open>C3: rendering the todo panel\<close>

lemma todoRows_length: "length (todoRows w i items) = length items"
  by (induction items arbitrary: i) simp_all

lemma todoRows_done: "map (\<lambda>(i, c, d, t). d) (todoRows w i items) = map Done items"
  by (induction items arbitrary: i) simp_all

lemma todoRows_index: "map fst (todoRows w i items) = [i + 1 ..< i + 1 + length items]"
  by (induction items arbitrary: i) (simp_all add: upt_rec)

text \<open>
  C3, as stated, asks that rendering leaves the stored list in insertion order. The code
  sorts the stored list itself: a low-priority item stored before a high-priority one
  has changed places with it after one rendering.
\<close>

theorem updateTodos_reorders_store:
  "todoItems (final (updateTodos (calm 0) (dashboard
      [\<lparr>Text = runes ''water plants'', Done = False, Priority = runes ''low''\<rparr>,
       \<lparr>Text = runes ''file taxes'', Done = False, Priority = runes ''high''\<rparr>]))) =
     [\<lparr>Text = runes ''file taxes'', Done = False, Priority = runes ''high''\<rparr>,
      \<lparr>Text = runes ''water plants'', Done = False, Priority = runes ''low''\<rparr>] \<and>
   todoItems (final (updateTodos (calm 0) (dashboard
      [\<lparr>Text = runes ''water plants'', Done = False, Priority = runes ''low''\<rparr>,
       \<lparr>Text = runes ''file taxes'', Done = False, Priority = runes ''high''\<rparr>]))) \<noteq>
     todoItems (dashboard
      [\<lparr>Text = runes ''water plants'', Done = False, Priority = runes ''low''\<rparr>,
       \<lparr>Text = runes ''file taxes'', Done = False, Priority = runes ''high''\<rparr>])"
  by (simp add: updateTodos_def Lock_def Unlock_def dashboard_def calm_def priorityRank_def
      ToLower_def toLowerRune_def runes_def)

text \<open>
  C3, amended. Rendering the todo panel, with the mutex free, returns and replaces the
  stored list by its stable sort by priority (high, then medium and every unrecognised
  priority, then low): the stored list afterwards is in priority order, holds the same
  items, keeps the items of equal rank in their previous order, and is what the panel
  shows row by row. The stored sequence is unchanged exactly when it was in priority
  order already.
\<close>

theorem updateTodos_sorts_store:
  assumes "\<not> mu b"
  shows "\<exists>b'. updateTodos w b = Returns b' \<and>
           todoItems b' = sort_key (priorityRank w) (todoItems b) \<and>
           sorted (map (priorityRank w) (todoItems b')) \<and>
           mset (todoItems b') = mset (todoItems b) \<and>
           (\<forall>k. filter (\<lambda>item. priorityRank w item = k) (todoItems b')
                 = filter (\<lambda>item. priorityRank w item = k) (todoItems b)) \<and>
           todoPanel b' = todoRows w 0 (todoItems b') \<and>
           (todoItems b' = todoItems b \<longleftrightarrow> sorted (map (priorityRank w) (todoItems b)))"
proof -
  let ?b' = "b\<lparr>todoItems := sort_key (priorityRank w) (todoItems b),
               todoPanel := todoRows w 0 (sort_key (priorityRank w) (todoItems b))\<rparr>"
  have r: "updateTodos w b = Returns ?b'"
    using assms by (simp add: updateTodos_def Lock_def Unlock_def Let_def)
  have fixed: "sort_key (priorityRank w) (todoItems b) = todoItems b
               \<longleftrightarrow> sorted (map (priorityRank w) (todoItems b))"
  proof
    assume "sort_key (priorityRank w) (todoItems b) = todoItems b"
    then have "map (priorityRank w) (todoItems b)
                 = map (priorityRank w) (sort_key (priorityRank w) (todoItems b))"
      by simp
    then show "sorted (map (priorityRank w) (todoItems b))"
      by (simp only: sorted_sort_key)
  next
    assume "sorted (map (priorityRank w) (todoItems b))"
    then show "sort_key (priorityRank w) (todoItems b) = todoItems b"
      by (rule sort_key_id_if_sorted)
  qed
  show ?thesis
    using r fixed by (simp add: sort_key_stable)
qed

theorem updateTodos_sorts_store_witness:
  "\<not> mu (dashboard
      [\<lparr>Text = runes ''a'', Done = False, Priority = runes ''low''\<rparr>,
       \<lparr>Text = runes ''b'', Done = True, Priority = runes ''urgent''\<rparr>,
       \<lparr>Text = runes ''c'', Done = False, Priority = runes ''HIGH''\<rparr>,
       \<lparr>Text = runes ''d'', Done = False, Priority = runes ''medium''\<rparr>]) \<and>
   todoItems (final (updateTodos (calm 0) (dashboard
      [\<lparr>Text = runes ''a'', Done = False, Priority = runes ''low''\<rparr>,
       \<lparr>Text = runes ''b'', Done = True, Priority = runes ''urgent''\<rparr>,
       \<lparr>Text = runes ''c'', Done = False, Priority = runes ''HIGH''\<rparr>,
       \<lparr>Text = runes ''d'', Done = False, Priority = runes ''medium''\<rparr>]))) =
     [\<lparr>Text = runes ''c'', Done = False, Priority = runes ''HIGH''\<rparr>,
      \<lparr>Text = runes ''b'', Done = True, Priority = runes ''urgent''\<rparr>,
      \<lparr>Text = runes ''d'', Done = False, Priority = runes ''medium''\<rparr>,
      \<lparr>Text = runes ''a'', Done = False, Priority = runes ''low''\<rparr>]"
  using updateTodos_sorts_store [of "dashboard
      [\<lparr>Text = runes ''a'', Done = False, Priority = runes ''low''\<rparr>,
       \<lparr>Text = runes ''b'', Done = True, Priority = runes ''urgent''\<rparr>,
       \<lparr>Text = runes ''c'', Done = False, Priority = runes ''HIGH''\<rparr>,
       \<lparr>Text = runes ''d'', Done = False, Priority = runes ''medium''\<rparr>]" "calm 0"]
  by (auto simp add: dashboard_def calm_def priorityRank_def ToLower_def toLowerRune_def
      runes_def)

section \<open>C1: letter case in the command line\<close>

text \<open>
  C1, as stated, asks that the text of \<open>todo add Buy milk\<close> keeps its capital letter
  and that a success notification ends the queue. The code lower-cases the whole line, so
  the stored text is \<open>buy milk\<close>; and the call ends blocked with the queue still empty.
\<close>

theorem todo_add_loses_case:
  "todoItems (final (processCommand (calm 0) (runes ''todo add Buy milk'') (dashboard []))) \<noteq>
     [\<lparr>Text = runes ''Buy milk'', Done = False, Priority = runes ''medium''\<rparr>] \<and>
   notifications (final (processCommand (calm 0) (runes ''todo add Buy milk'') (dashboard []))) = []"
  by (simp add: run_defs)

text \<open>
  What \<open>todo add\<close> stores, for every line: when the fields of the line are a verb that
  lower-cases to \<open>todo\<close>, a sub-command that lower-cases to \<open>add\<close> and at least one
  word, the call appends one item whose text is the words, lower-cased and joined by
  single spaces.
\<close>

lemma todo_add_appends:
  assumes free: "\<not> mu b" and stable: "spaceStable (caseTable w)"
    and fields: "Fields command = verb # sub # words" and some: "words \<noteq> []"
    and verb: "ToLower (caseTable w) verb = runes ''todo''"
    and sub: "ToLower (caseTable w) sub = runes ''add''"
  shows "todoItems (final (processCommand w command b)) =
           todoItems b @ [\<lparr>Text = ToLower (caseTable w) (Join words (runes '' '')),
                            Done = False, Priority = runes ''medium''\<rparr>]"
proof -
  let ?low = "ToLower (caseTable w)"
  let ?line = "TrimSpace (?low command)"
  have lowered: "Fields ?line = runes ''todo'' # runes ''add'' # map ?low words"
    using Fields_ToLower [OF stable, of command] fields verb sub
    by (simp add: Fields_TrimSpace)
  then have nonblank: "?line \<noteq> []"
    by (auto simp add: Fields_def)
  have words: "map ?low words \<noteq> []"
    using some by simp
  define h where "h = commandHistory b @ [?line]"
  define b1 where
    "b1 = b\<lparr>mu := True, commandHistory := (if length h > 20 then drop (length h - 20) h else h)\<rparr>"
  have held: "mu b1" and items: "todoItems b1 = todoItems b"
    by (simp_all add: b1_def)
  define item where
    "item = \<lparr>Text = Join (map ?low words) (runes '' ''), Done = False, Priority = runes ''medium''\<rparr>"
  have "mu (b1\<lparr>todoItems := todoItems b1 @ [item]\<rparr>)"
    using held by simp
  then have branch: "todoCommand w (runes ''add'' # map ?low words) b1 =
                       Blocks (b1\<lparr>todoItems := todoItems b1 @ [item]\<rparr>)"
    using words by (simp add: todoCommand_def saveTodos_held_notify item_def Let_def)
  have switch: "commandSwitch w ?line (runes ''todo'') (runes ''add'' # map ?low words) b1 =
          todoCommand w (runes ''add'' # map ?low words) b1"
    by (simp add: commandSwitch_def runes_eq_iff)
  have unfold: "processCommand w command b =
      andThen (commandSwitch w ?line (runes ''todo'') (runes ''add'' # map ?low words) b1)
        (\<lambda>(b, tasks). Returns (Unlock (b\<lparr>cmdInput := [], spawned := spawned b @ tasks\<rparr>)))"
    using free nonblank lowered
    by (simp add: processCommand_def Lock_def Let_def b1_def h_def)
  have "processCommand w command b = Blocks (b1\<lparr>todoItems := todoItems b1 @ [item]\<rparr>)"
    by (simp only: unfold switch branch andThen.simps)
  then show ?thesis
    by (simp add: items item_def ToLower_Join ToLower_literal)
qed

text \<open>
  C1, amended. The dispatcher lower-cases the whole line before it splits it. Two lines
  with the same lower-cased form are dispatched alike, so the verb is matched without
  regard to letter case, and so is every argument: free text is stored lower-cased, not as
  typed. For every line whose fields are \<open>todo\<close>, \<open>add\<close> (in any letter case) and one
  or more words, dispatching with the mutex free appends exactly one item, not done, of
  priority medium, whose text is the lower-cased words joined by single spaces; on an
  empty todo list \<open>todo add Buy milk\<close> leaves exactly the item with text \<open>buy milk\<close>.
  The lower-case table is asked only to leave white space in place, as Go's does.
\<close>

theorem processCommand_lower_cases:
  "(ToLower (caseTable w) c1 = ToLower (caseTable w) c2 \<longrightarrow>
      processCommand w c1 b = processCommand w c2 b) \<and>
   (\<not> mu b \<and> spaceStable (caseTable w) \<and> Fields command = verb # sub # words \<and>
    words \<noteq> [] \<and> ToLower (caseTable w) verb = runes ''todo'' \<and>
    ToLower (caseTable w) sub = runes ''add'' \<longrightarrow>
      todoItems (final (processCommand w command b)) =
        todoItems b @ [\<lparr>Text = ToLower (caseTable w) (Join words (runes '' '')),
                         Done = False, Priority = runes ''medium''\<rparr>]) \<and>
   (\<not> mu b \<and> todoItems b = [] \<longrightarrow>
      todoItems (final (processCommand w (runes ''todo add Buy milk'') b)) =
        [\<lparr>Text = runes ''buy milk'', Done = False, Priority = runes ''medium''\<rparr>])"
proof -
  have same: "processCommand w c1 b = processCommand w c2 b"
    if "ToLower (caseTable w) c1 = ToLower (caseTable w) c2"
    using that by (simp add: processCommand_def)
  have l: "ToLower (caseTable w) (runes ''todo add Buy milk'') = runes ''todo add buy milk''"
    by (simp add: ToLower_def toLowerRune_def runes_def)
  have t: "TrimSpace (runes ''todo add buy milk'') = runes ''todo add buy milk''"
    by (simp add: TrimSpace_def isSpace_def runes_def)
  have f: "Fields (runes ''todo add buy milk'') =
             [runes ''todo'', runes ''add'', runes ''buy'', runes ''milk'']"
    by (simp add: Fields_def isSpace_def runes_def)
  have milk: "todoItems (final (processCommand w (runes ''todo add Buy milk'') b)) =
          [\<lparr>Text = runes ''buy milk'', Done = False, Priority = runes ''medium''\<rparr>]"
    if "\<not> mu b" and "todoItems b = []"
  proof -
    have j: "runes ''buy'' @ runes '' '' @ runes ''milk'' = runes ''buy milk''"
      and ne: "runes ''todo add buy milk'' \<noteq> []"
      by (simp_all add: runes_def)
    from that show ?thesis
      by (simp add: processCommand_def l t f Lock_def commandSwitch_def todoCommand_def
          saveTodos_held_notify runes_eq_iff j ne Let_def)
  qed
  from same milk todo_add_appends [of b w command verb sub words] show ?thesis
    by blast
qed

theorem processCommand_lower_cases_witness:
  "ToLower (caseTable (calm 5)) (runes ''TODO Add Buy Milk'')
     = ToLower (caseTable (calm 5)) (runes ''todo add buy milk'') \<and>
   processCommand (calm 5) (runes ''TODO Add Buy Milk'') (dashboard []) =
     processCommand (calm 5) (runes ''todo add buy milk'') (dashboard []) \<and>
   Fields (runes ''ToDo ADD '' @ [0xC9] @ runes ''COLE'' @ [0xA0] @ runes ''du  Soir '') =
     [runes ''ToDo'', runes ''ADD'', [0xC9] @ runes ''COLE'', runes ''du'', runes ''Soir''] \<and>
   todoItems (final (processCommand (calm 5)
      (runes ''ToDo ADD '' @ [0xC9] @ runes ''COLE'' @ [0xA0] @ runes ''du  Soir '')
      (dashboard [\<lparr>Text = runes ''a'', Done = True, Priority = runes ''low''\<rparr>]))) =
     [\<lparr>Text = runes ''a'', Done = True, Priority = runes ''low''\<rparr>,
      \<lparr>Text = [0xE9] @ runes ''cole du soir'', Done = False, Priority = runes ''medium''\<rparr>] \<and>
   todoItems (final (processCommand (calm 5) (runes ''todo add Buy milk'') (dashboard []))) =
     [\<lparr>Text = runes ''buy milk'', Done = False, Priority = runes ''medium''\<rparr>]"
proof -
  let ?b = "dashboard [\<lparr>Text = runes ''a'', Done = True, Priority = runes ''low''\<rparr>]"
  let ?line = "runes ''ToDo ADD '' @ [0xC9] @ runes ''COLE'' @ [0xA0] @ runes ''du  Soir ''"
  let ?words = "[[0xC9] @ runes ''COLE'', runes ''du'', runes ''Soir'']"
  have same: "ToLower (caseTable (calm 5)) (runes ''TODO Add Buy Milk'')
                = ToLower (caseTable (calm 5)) (runes ''todo add buy milk'')"
    by (simp add: ToLower_def toLowerRune_def runes_def)
  have stable: "spaceStable (caseTable (calm 5))"
    using spaceStable_latin1Lower by (simp add: calm_def)
  have fields: "Fields ?line = runes ''ToDo'' # runes ''ADD'' # ?words"
    by (simp add: Fields_def isSpace_def runes_def)
  have verb: "ToLower (caseTable (calm 5)) (runes ''ToDo'') = runes ''todo''"
    and sub: "ToLower (caseTable (calm 5)) (runes ''ADD'') = runes ''add''"
    by (simp_all add: ToLower_def toLowerRune_def runes_def)
  have joined: "ToLower (caseTable (calm 5)) (Join ?words (runes '' ''))
                = [0xE9] @ runes ''cole du soir''"
    by (simp add: ToLower_def toLowerRune_def latin1Lower_def calm_def runes_def)
  have free: "\<not> mu ?b" "todoItems ?b = [\<lparr>Text = runes ''a'', Done = True, Priority = runes ''low''\<rparr>]"
    "\<not> mu (dashboard [])" "todoItems (dashboard []) = []"
    by (simp_all add: dashboard_def)
  from processCommand_lower_cases
    [of "calm 5" "runes ''TODO Add Buy Milk''" "runes ''todo add buy milk''" "dashboard []"
        ?line "runes ''ToDo''" "runes ''ADD''" ?words]
    processCommand_lower_cases
    [of "calm 5" "runes ''TODO Add Buy Milk''" "runes ''todo add buy milk''" ?b
        ?line "runes ''ToDo''" "runes ''ADD''" ?words]
    same stable fields verb sub joined free
  show ?thesis
    by simp
qed

section \<open>C5: an unknown theme\<close>

text \<open>
  Inside \<open>processCommand\<close> (the mutex held), \<open>theme\<close> with a name that is not a key
  of \<open>themes\<close> changes nothing before it blocks in \<open>addNotification\<close>.
\<close>

lemma themeCommand_unknown_held:
  "mu b \<Longrightarrow> map_of themes name = None \<Longrightarrow> themeCommand w [name] b = Blocks b"
  by (simp add: themeCommand_def notify_held)

text \<open>
  C5. Dispatching \<open>theme bogus\<close> leaves the theme unchanged, but no error notification
  is pushed: \<open>processCommand\<close> holds the mutex when it calls \<open>addNotification\<close>, which
  blocks in \<open>Lock\<close>. The call ends blocked, with the queue as it was.
\<close>

theorem theme_bogus_blocks:
  "processCommand (calm 0) (runes ''theme bogus'') (dashboard []) =
     Blocks ((dashboard [])\<lparr>mu := True, commandHistory := [runes ''theme bogus'']\<rparr>)"
  by (simp add: run_defs)

section \<open>C6: deleting a todo\<close>

lemma validIndex_range:
  "validIndex arg b = Some k \<Longrightarrow> 1 \<le> k \<and> k \<le> length (todoItems b)"
  by (auto simp add: validIndex_def split: option.splits if_splits)

lemma validIndex_length:
  "length (todoItems b') = length (todoItems b) \<Longrightarrow> validIndex arg b' = validIndex arg b"
  by (simp add: validIndex_def split: option.split)

lemma validIndex_zero: "validIndex (runes ''0'') b = None"
  by (simp add: validIndex_def Atoi_def digitVal_def runes_def)

text \<open>
  Inside \<open>processCommand\<close> (the mutex held), \<open>todo delete\<close> with one argument removes
  the item of a valid index and leaves the list alone otherwise; in both cases it then
  blocks in \<open>addNotification\<close>.
\<close>

lemma todoCommand_delete_held:
  "mu b \<Longrightarrow>
   todoCommand w [runes ''delete'', arg] b =
     Blocks (case validIndex arg b of
               None \<Rightarrow> b
             | Some k \<Rightarrow> b\<lparr>todoItems := take (k - 1) (todoItems b) @ drop k (todoItems b)\<rparr>)"
  by (simp add: todoCommand_def notify_held saveTodos_held_notify runes_eq_iff Let_def
      split: option.split)

lemma delete_shifts:
  assumes "1 \<le> k" and "k \<le> length xs"
  shows "length (take (k - 1) xs @ drop k xs) = length xs - 1 \<and>
         (\<forall>j < length xs - 1.
            (take (k - 1) xs @ drop k xs) ! j = (if j < k - 1 then xs ! j else xs ! (j + 1)))"
proof -
  have len: "length (take (k - 1) xs) = k - 1"
    using assms by simp
  have "(take (k - 1) xs @ drop k xs) ! j = (if j < k - 1 then xs ! j else xs ! (j + 1))"
    if "j < length xs - 1" for j
  proof (cases "j < k - 1")
    case True
    then show ?thesis
      by (simp only: nth_append len if_True nth_take)
  next
    case False
    then have "(take (k - 1) xs @ drop k xs) ! j = drop k xs ! (j - (k - 1))"
      by (simp only: nth_append len if_False)
    also have "\<dots> = xs ! (k + (j - (k - 1)))"
      using assms by simp
    also have "k + (j - (k - 1)) = j + 1"
      using False assms by simp
    finally show ?thesis
      using False by simp
  qed
  moreover have "length (take (k - 1) xs @ drop k xs) = length xs - 1"
    using assms by simp
  ultimately show ?thesis
    by blast
qed

text \<open>
  C6. \<open>todo delete 3\<close> and \<open>todo delete 0\<close> on a list of two items leave the list
  unchanged, but the error notification that should name the index is never pushed: the
  call ends blocked in \<open>addNotification\<close> with the queue empty.
\<close>

theorem todo_delete_out_of_range_blocks:
  "processCommand (calm 0) (runes ''todo delete 3'')
      (dashboard [\<lparr>Text = runes ''a'', Done = False, Priority = runes ''medium''\<rparr>,
                  \<lparr>Text = runes ''b'', Done = True, Priority = runes ''low''\<rparr>]) =
     Blocks ((dashboard [\<lparr>Text = runes ''a'', Done = False, Priority = runes ''medium''\<rparr>,
                         \<lparr>Text = runes ''b'', Done = True, Priority = runes ''low''\<rparr>])
               \<lparr>mu := True, commandHistory := [runes ''todo delete 3'']\<rparr>) \<and>
   processCommand (calm 0) (runes ''todo delete 0'')
      (dashboard [\<lparr>Text = runes ''a'', Done = False, Priority = runes ''medium''\<rparr>,
                  \<lparr>Text = runes ''b'', Done = True, Priority = runes ''low''\<rparr>]) =
     Blocks ((dashboard [\<lparr>Text = runes ''a'', Done = False, Priority = runes ''medium''\<rparr>,
                         \<lparr>Text = runes ''b'', Done = True, Priority = runes ''low''\<rparr>])
               \<lparr>mu := True, commandHistory := [runes ''todo delete 0'']\<rparr>)"
  by (simp add: run_defs)

section \<open>C7: toggling a todo twice\<close>

lemma todoCommand_toggle_held:
  "mu b \<Longrightarrow>
   todoCommand w [runes ''toggle'', arg] b =
     Blocks (case validIndex arg b of
               None \<Rightarrow> b
             | Some k \<Rightarrow>
                 b\<lparr>todoItems := (todoItems b)
                      [k - 1 := (todoItems b ! (k - 1))\<lparr>Done := \<not> Done (todoItems b ! (k - 1))\<rparr>]\<rparr>)"
  by (simp add: todoCommand_def notify_held saveTodos_held_notify runes_eq_iff Let_def
      split: option.split)

text \<open>
  The toggle branch by itself undoes itself: run a second time on the state the first run
  left, it gives back the todo list it started from.
\<close>

lemma toggle_branch_twice:
  assumes "mu b"
  shows "todoItems (ended (todoCommand w2 [runes ''toggle'', arg]
            (ended (todoCommand w1 [runes ''toggle'', arg] b)))) = todoItems b"
proof (cases "validIndex arg b")
  case None
  with assms show ?thesis
    by (simp add: todoCommand_toggle_held)
next
  case (Some k)
  define b1 where
    "b1 = b\<lparr>todoItems := (todoItems b)
            [k - 1 := (todoItems b ! (k - 1))\<lparr>Done := \<not> Done (todoItems b ! (k - 1))\<rparr>]\<rparr>"
  have range: "1 \<le> k \<and> k \<le> length (todoItems b)"
    using Some by (rule validIndex_range)
  have first: "todoCommand w1 [runes ''toggle'', arg] b = Blocks b1"
    using assms Some by (simp add: todoCommand_toggle_held b1_def)
  have held: "mu b1"
    using assms by (simp add: b1_def)
  have "length (todoItems b1) = length (todoItems b)"
    by (simp add: b1_def)
  then have "validIndex arg b1 = validIndex arg b"
    by (rule validIndex_length)
  with Some have again: "validIndex arg b1 = Some k"
    by simp
  have second: "todoCommand w2 [runes ''toggle'', arg] b1 =
          Blocks (b1\<lparr>todoItems := (todoItems b1)
            [k - 1 := (todoItems b1 ! (k - 1))\<lparr>Done := \<not> Done (todoItems b1 ! (k - 1))\<rparr>]\<rparr>)"
    using held again by (simp add: todoCommand_toggle_held)
  have inside: "k - 1 < length (todoItems b)"
    using range by arith
  then have flipped: "todoItems b1 ! (k - 1)
                        = (todoItems b ! (k - 1))\<lparr>Done := \<not> Done (todoItems b ! (k - 1))\<rparr>"
    by (simp add: b1_def)
  have "(todoItems b1)
          [k - 1 := (todoItems b1 ! (k - 1))\<lparr>Done := \<not> Done (todoItems b1 ! (k - 1))\<rparr>]
        = (todoItems b)[k - 1 := todoItems b ! (k - 1)]"
    unfolding flipped by (simp add: b1_def)
  also have "\<dots> = todoItems b"
    by (rule list_update_id)
  finally show ?thesis
    by (simp add: first second)
qed

text \<open>
  C7. The first \<open>todo toggle 1\<close> flips \<open>Done\<close> and then blocks in \<open>addNotification\<close>
  with the mutex held; a second dispatch waits in \<open>Lock\<close> and changes nothing. After the
  two dispatches the item is done, not back at its original value.
\<close>

theorem todo_toggle_twice_blocks:
  "processCommand (calm 0) (runes ''todo toggle 1'')
      (dashboard [\<lparr>Text = runes ''a'', Done = False, Priority = runes ''medium''\<rparr>]) =
     Blocks ((dashboard [\<lparr>Text = runes ''a'', Done = True, Priority = runes ''medium''\<rparr>])
               \<lparr>mu := True, commandHistory := [runes ''todo toggle 1'']\<rparr>) \<and>
   processCommand (calm 1) (runes ''todo toggle 1'')
      (final (processCommand (calm 0) (runes ''todo toggle 1'')
         (dashboard [\<lparr>Text = runes ''a'', Done = False, Priority = runes ''medium''\<rparr>]))) =
     Blocks ((dashboard [\<lparr>Text = runes ''a'', Done = True, Priority = runes ''medium''\<rparr>])
               \<lparr>mu := True, commandHistory := [runes ''todo toggle 1'']\<rparr>)"
  by (simp add: run_defs)

section \<open>C8: cycling the priority\<close>

text \<open>
  The step that the shortcut \<open>p\<close> computes is the cycle that the claim describes: low
  to medium, medium to high, high to low, so three steps return each of the three
  priorities.
\<close>

lemma nextPriority_canonical:
  "nextPriority w (runes ''low'') = Some (runes ''medium'')"
  "nextPriority w (runes ''medium'') = Some (runes ''high'')"
  "nextPriority w (runes ''high'') = Some (runes ''low'')"
  by (simp_all add: nextPriority_def priorities_def ToLower_def toLowerRune_def runes_def)

lemma nextPriority_three_steps:
  assumes "p \<in> set priorities"
  shows "Option.bind (Option.bind (nextPriority w p) (nextPriority w)) (nextPriority w) = Some p"
  using assms by (auto simp add: priorities_def nextPriority_canonical)

text \<open>
  One press, with the mutex free and the dashboard focused, writes that step to the first
  not-done todo; the call then ends in \<open>saveTodos\<close> and \<open>addNotification\<close> with the
  mutex held.
\<close>

lemma key_p_writes_next:
  assumes "\<not> mu b" and "\<not> cmdInputFocused b"
    and "firstIndex (\<lambda>item. \<not> Done item) (todoItems b) = Some i"
  shows "todoItems (ended (inputHandler w (of_char (CHR ''p'')) b)) =
           (case nextPriority w (Priority (todoItems b ! i)) of
              None \<Rightarrow> todoItems b
            | Some q \<Rightarrow> (todoItems b)[i := (todoItems b ! i)\<lparr>Priority := q\<rparr>])"
  using assms
  by (simp add: inputHandler_def Lock_def saveTodos_held addNotification_held Let_def
      split: option.split)

lemma inputHandler_held:
  "mu b \<Longrightarrow> \<not> cmdInputFocused b \<Longrightarrow> inputHandler w rune b = Blocks b"
  by (simp add: inputHandler_def Lock_def)

text \<open>
  C8. The shortcut cannot be applied three times. The first press on a todo of priority
  low writes medium and then blocks in \<open>addNotification\<close>, because \<open>inputHandler\<close>
  still holds the mutex; the second and third press wait in \<open>Lock\<close> and change nothing.
  After three presses the priority is medium, not low again.
\<close>

theorem key_p_three_times_blocks:
  "inputHandler (calm 0) (of_char (CHR ''p''))
      (dashboard [\<lparr>Text = runes ''a'', Done = False, Priority = runes ''low''\<rparr>]) =
     Blocks ((dashboard [\<lparr>Text = runes ''a'', Done = False, Priority = runes ''medium''\<rparr>])
               \<lparr>mu := True\<rparr>) \<and>
   todoItems (ended (inputHandler (calm 2) (of_char (CHR ''p''))
     (ended (inputHandler (calm 1) (of_char (CHR ''p''))
       (ended (inputHandler (calm 0) (of_char (CHR ''p''))
         (dashboard [\<lparr>Text = runes ''a'', Done = False, Priority = runes ''low''\<rparr>]))))))) =
     [\<lparr>Text = runes ''a'', Done = False, Priority = runes ''medium''\<rparr>]"
proof -
  let ?start = "dashboard [\<lparr>Text = runes ''a'', Done = False, Priority = runes ''low''\<rparr>]"
  let ?stuck = "(dashboard [\<lparr>Text = runes ''a'', Done = False, Priority = runes ''medium''\<rparr>])
                  \<lparr>mu := True\<rparr>"
  have first: "inputHandler (calm 0) (of_char (CHR ''p'')) ?start = Blocks ?stuck"
    by (simp add: inputHandler_def Lock_def saveTodos_def addNotification_def
        nextPriority_canonical dashboard_def calm_def)
  have held: "mu ?stuck" "\<not> cmdInputFocused ?stuck"
    by (simp_all add: dashboard_def)
  have later: "inputHandler w (of_char (CHR ''p'')) ?stuck = Blocks ?stuck" for w
    using held by (rule inputHandler_held)
  have items: "todoItems ?stuck =
                 [\<lparr>Text = runes ''a'', Done = False, Priority = runes ''medium''\<rparr>]"
    by (simp add: dashboard_def)
  show ?thesis
    by (simp only: first later ended.simps items simp_thms)
qed

section \<open>C2: the metric history\<close>

lemma history_rewritten:
  "(h :: SystemHistory)\<lparr>CPU := c, Memory := m, Timestamps := t, NetworkIn := i, NetworkOut := out\<rparr> =
     \<lparr>CPU = c, Memory = m, Timestamps = t, NetworkIn = i, NetworkOut = out\<rparr>"
  by (cases h) simp

lemma lastHistory_full:
  "length xs = historyLimit \<Longrightarrow> lastHistory (xs @ [x]) = Some (tl xs @ [x])"
  by (cases xs) (simp_all add: lastHistory_def historyLimit_def)

lemma trimHistory_short:
  "length (CPU (systemHistory b)) \<le> historyLimit \<Longrightarrow> trimHistory b = Returns b"
  by (simp add: trimHistory_def)

lemma trimHistory_full:
  assumes "systemHistory b =
             \<lparr>CPU = cs @ [c], Memory = ms @ [m], Timestamps = ts @ [t],
              NetworkIn = is @ [rx], NetworkOut = os @ [tx]\<rparr>"
    and "length cs = historyLimit" and "length ms = historyLimit"
    and "length ts = historyLimit" and "length is = historyLimit"
    and "length os = historyLimit"
  shows "trimHistory b =
         Returns (b\<lparr>systemHistory :=
             \<lparr>CPU = tl cs @ [c], Memory = tl ms @ [m], Timestamps = tl ts @ [t],
              NetworkIn = tl is @ [rx], NetworkOut = tl os @ [tx]\<rparr>\<rparr>)"
  using assms
  by (simp add: trimHistory_def lastHistory_full Let_def)

lemma saveSystemHistory_held:
  assumes "mu b" and "trimHistory b = Returns b'" and "mu b' = mu b"
  shows "saveSystemHistory w b = (if fileWrite w = IoOk then Returns b' else Blocks b')"
  using assms
  by (cases "fileWrite w") (simp_all add: saveSystemHistory_def addNotification_held)

text \<open>
  When the provider gives network counters, a tick keeps an aligned history aligned and
  appends to each of the five sequences, dropping the oldest entry of a full one.
\<close>

lemma updateSystemInfo_with_counters:
  assumes free: "\<not> mu b" and al: "aligned (systemHistory b)" and net: "netIO smp = Some (rx, tx)"
  shows "systemHistory (final (updateSystemInfo w smp b)) =
           \<lparr>CPU = fifoAppend (CPU (systemHistory b)) (cpuPercent smp),
            Memory = fifoAppend (Memory (systemHistory b)) (memPercent smp),
            Timestamps = fifoAppend (Timestamps (systemHistory b)) (nowStr smp),
            NetworkIn = fifoAppend (NetworkIn (systemHistory b)) rx,
            NetworkOut = fifoAppend (NetworkOut (systemHistory b)) tx\<rparr> \<and>
         aligned (systemHistory (final (updateSystemInfo w smp b)))"
proof -
  define h where "h = systemHistory b"
  define h1 where
    "h1 = \<lparr>CPU = CPU h @ [cpuPercent smp], Memory = Memory h @ [memPercent smp],
           Timestamps = Timestamps h @ [nowStr smp],
           NetworkIn = NetworkIn h @ [rx], NetworkOut = NetworkOut h @ [tx]\<rparr>"
  define b1 where "b1 = b\<lparr>mu := True, systemHistory := h1\<rparr>"
  have held: "mu b1" and hist: "systemHistory b1 = h1"
    by (simp_all add: b1_def)
  have unfold: "updateSystemInfo w smp b =
      (case saveSystemHistory w b1 of
         Returns b \<Rightarrow> Returns (Unlock b)
       | Blocks b \<Rightarrow> Blocks b
       | Panics b \<Rightarrow> Panics (Unlock b))"
    using free net
    by (simp add: updateSystemInfo_def Lock_def Let_def b1_def h1_def h_def history_rewritten)
  define h2 where
    "h2 = \<lparr>CPU = fifoAppend (CPU h) (cpuPercent smp),
           Memory = fifoAppend (Memory h) (memPercent smp),
           Timestamps = fifoAppend (Timestamps h) (nowStr smp),
           NetworkIn = fifoAppend (NetworkIn h) rx,
           NetworkOut = fifoAppend (NetworkOut h) tx\<rparr>"
  have trim: "trimHistory b1 = Returns (b1\<lparr>systemHistory := h2\<rparr>)"
  proof (cases "length (CPU h) = historyLimit")
    case True
    with al have "length (Memory h) = historyLimit" "length (Timestamps h) = historyLimit"
      "length (NetworkIn h) = historyLimit" "length (NetworkOut h) = historyLimit"
      by (simp_all add: aligned_def h_def)
    with True trimHistory_full [of b1 "CPU h" "cpuPercent smp" "Memory h" "memPercent smp"
        "Timestamps h" "nowStr smp" "NetworkIn h" rx "NetworkOut h" tx]
    show ?thesis
      by (simp add: hist h1_def h2_def fifoAppend_def)
  next
    case False
    with al have short: "length (CPU h) < historyLimit"
      and same: "length (Memory h) = length (CPU h)" "length (Timestamps h) = length (CPU h)"
        "length (NetworkIn h) = length (CPU h)" "length (NetworkOut h) = length (CPU h)"
      by (simp_all add: aligned_def h_def)
    then have "length (CPU (systemHistory b1)) \<le> historyLimit"
      by (simp add: hist h1_def)
    then have "trimHistory b1 = Returns b1"
      by (rule trimHistory_short)
    moreover have "h2 = h1"
      using short same by (simp add: h1_def h2_def fifoAppend_def)
    ultimately show ?thesis
      by (simp add: b1_def)
  qed
  have "mu (b1\<lparr>systemHistory := h2\<rparr>) = mu b1"
    by simp
  from saveSystemHistory_held [OF held trim this, of w]
  have result: "systemHistory (final (updateSystemInfo w smp b)) = h2"
    by (simp add: unfold Unlock_def)
  moreover have "aligned h2"
    using al by (auto simp add: aligned_def h2_def h_def fifoAppend_def historyLimit_def)
  ultimately show ?thesis
    by (simp add: h2_def h_def)
qed

text \<open>
  Without network counters a tick appends to three of the five sequences only. Once
  those three are full while the network sequences are shorter, the trim in
  \<open>saveSystemHistory\<close> slices a network sequence below zero and the call panics.
\<close>

lemma updateSystemInfo_panics:
  assumes "\<not> mu b" and "netIO smp = None"
    and "length (CPU (systemHistory b)) = historyLimit"
    and "length (Memory (systemHistory b)) = historyLimit"
    and "length (Timestamps (systemHistory b)) = historyLimit"
    and "length (NetworkIn (systemHistory b)) < historyLimit"
  shows "\<exists>b'. updateSystemInfo w smp b = Panics b'"
  using assms
  by (simp add: updateSystemInfo_def saveSystemHistory_def trimHistory_def lastHistory_def
      Lock_def Let_def)

text \<open>
  C2. A tick for which \<open>net.IOCounters\<close> gives no counters appends to the CPU, memory
  and timestamp sequences and not to the two network sequences: from the empty history
  the call returns with three sequences of length one and two of length zero.
\<close>

theorem updateSystemInfo_without_counters:
  "updateSystemInfo (calm 0)
      \<lparr>cpuPercent = 12, memPercent = 40, nowStr = runes ''10:00:00'', netIO = None\<rparr> (dashboard []) =
     Returns ((dashboard [])\<lparr>systemHistory :=
       \<lparr>CPU = [12], Memory = [40], Timestamps = [runes ''10:00:00''],
        NetworkIn = [], NetworkOut = []\<rparr>\<rparr>) \<and>
   \<not> aligned (systemHistory (final (updateSystemInfo (calm 0)
      \<lparr>cpuPercent = 12, memPercent = 40, nowStr = runes ''10:00:00'', netIO = None\<rparr> (dashboard []))))"
  by (simp add: updateSystemInfo_def saveSystemHistory_def trimHistory_def Lock_def Unlock_def
      dashboard_def calm_def historyLimit_def aligned_def)

end
